theory Spec2Isabelle
  imports Complex_Main "HOL-Library.Word" "HOL-Library.Sublist"
begin

section \<open>Reduction of a science frame (science.py)\<close>

text \<open>
  The repository has one function, \<^verbatim>\<open>reduce_science_frame\<close>, which reads four FITS files,
  calibrates the science image in place, runs a cosmic-ray detector over it and writes a
  two-plane FITS file. The function is a straight line of library calls (astropy, numpy,
  astroscrappy); each call is modelled below by what it returns and by the exception it
  can raise, and the function itself is the composition of these calls in source order.

  Pixel values are single-precision floats (\<^verbatim>\<open>astype('f4')\<close>). Their arithmetic is not
  interpreted: pixels range over any type \<open>'a\<close> that has the operations \<open>-\<close>, \<open>*\<close>, \<open>/\<close>
  and the constants \<open>0\<close> and \<open>1\<close>, with no law assumed about them. Every theorem below
  therefore holds for IEEE arithmetic with its rounding, infinities and NaNs as for any
  other arithmetic, and none of them rests on an algebraic identity.
\<close>

subsection \<open>Exceptions\<close>

text \<open>
  The Python exceptions the function can raise, under the names of the specification's
  error taxonomy.
\<close>

datatype error =
    NotFoundError string          \<comment> \<open>\<^verbatim>\<open>FileNotFoundError\<close>: the path does not resolve\<close>
  | FormatError string            \<comment> \<open>\<^verbatim>\<open>OSError\<close>: the file is not a FITS container\<close>
  | NoDataError string            \<comment> \<open>\<^verbatim>\<open>IndexError\<close>: neither the primary HDU nor the first extension has data\<close>
  | ShapeMismatchError            \<comment> \<open>\<^verbatim>\<open>ValueError\<close>: operands could not be broadcast together\<close>
  | MissingMetadataError string   \<comment> \<open>\<^verbatim>\<open>KeyError\<close>: keyword not found in the header\<close>
  | ScalarTypeError               \<comment> \<open>\<^verbatim>\<open>UFuncTypeError\<close>: the header value is not a number\<close>
  | HeaderValueError string       \<comment> \<open>\<^verbatim>\<open>ValueError\<close>: a header string with a character outside printable ASCII\<close>
  | DetectionError                \<comment> \<open>any exception of the cosmic-ray detector\<close>
  | WriteError string             \<comment> \<open>\<^verbatim>\<open>OSError\<close>: the output path cannot be written\<close>

subsection \<open>Two-dimensional arrays\<close>

text \<open>
  A 2D numpy array: its rows, and the length of a row (kept apart so that the shape
  \<open>(0, c)\<close> is represented). An array is well formed when every row has that length.
  The function is written for 2D images (its docstring returns a 2D array, and the
  detector takes no other); FITS data of another dimension is outside this model.
\<close>

datatype 'a ndarray = NDArray (ncols: nat) (rows: "'a list list")

definition nrows :: "'a ndarray \<Rightarrow> nat" where
  "nrows a = length (rows a)"

definition shape :: "'a ndarray \<Rightarrow> nat \<times> nat" where
  "shape a = (nrows a, ncols a)"



definition astype :: "('a \<Rightarrow> 'b) \<Rightarrow> 'a ndarray \<Rightarrow> 'b ndarray" where
  "astype conv a = NDArray (ncols a) (map (map conv) (rows a))"

text \<open>
  numpy's broadcasting of an operand to the shape of the output array of an in-place
  operation: along each axis the operand has the length of the output or length 1, and
  an axis of length 1 is repeated. Any other operand is refused.
\<close>

definition broadcastable :: "'a ndarray \<Rightarrow> nat \<times> nat \<Rightarrow> bool" where
  "broadcastable b shp =
     ((nrows b = fst shp \<or> nrows b = 1) \<and> (ncols b = snd shp \<or> ncols b = 1))"

definition broadcast_to :: "'a ndarray \<Rightarrow> nat \<times> nat \<Rightarrow> 'a ndarray option" where
  "broadcast_to b shp =
     (if broadcastable b shp
      then Some (NDArray (snd shp)
             (map (\<lambda>row. if ncols b = snd shp then row else replicate (snd shp) (hd row))
                  (if nrows b = fst shp then rows b else replicate (fst shp) (hd (rows b)))))
      else None)"

text \<open>
  An in-place binary operation \<^verbatim>\<open>a op= b\<close> on arrays: \<open>b\<close> is broadcast to the shape of
  \<open>a\<close>, which is the output, and the operation is applied pixel by pixel.
\<close>

definition inplace :: "('a \<Rightarrow> 'a \<Rightarrow> 'a) \<Rightarrow> 'a ndarray \<Rightarrow> 'a ndarray \<Rightarrow> error + 'a ndarray" where
  "inplace f a b =
     (case broadcast_to b (shape a) of
        None \<Rightarrow> Inl ShapeMismatchError
      | Some b' \<Rightarrow> Inr (NDArray (ncols a) (map2 (map2 f) (rows a) (rows b'))))"

definition isub :: "'a::minus ndarray \<Rightarrow> 'a ndarray \<Rightarrow> error + 'a ndarray" where
  "isub a b = inplace (\<lambda>x y. x - y) a b"

definition idiv :: "'a::inverse ndarray \<Rightarrow> 'a ndarray \<Rightarrow> error + 'a ndarray" where
  "idiv a b = inplace (\<lambda>x y. x / y) a b"

subsection \<open>Headers\<close>

text \<open>
  A header is the ordered list of its cards (keyword, value, comment). Keywords are in
  the upper-case form astropy stores. A number in a card is held as the float32 value
  that numpy makes of it. The keywords that describe the encoding of the data, which
  astropy rewrites from the data when an HDU is built (SIMPLE, BITPIX, NAXIS, NAXISn,
  EXTEND, BSCALE, BZERO), and blank padding cards are not listed: the data of the HDU
  stands for the former.
\<close>

datatype 'a hvalue = Number 'a | Text string | Logical bool

type_synonym 'a card = "string \<times> 'a hvalue \<times> string"

type_synonym 'a header = "'a card list"

definition keyword :: "'a card \<Rightarrow> string" where
  "keyword c = fst c"

text \<open>\<^verbatim>\<open>header[key]\<close>: the value of the first card with the keyword.\<close>

definition header_get :: "'a header \<Rightarrow> string \<Rightarrow> error + 'a hvalue" where
  "header_get h k =
     (case find (\<lambda>c. keyword c = k) h of
        None \<Rightarrow> Inl (MissingMetadataError k)
      | Some c \<Rightarrow> Inr (fst (snd c)))"

text \<open>
  \<^verbatim>\<open>dark *= v\<close> for a header value \<open>v\<close>: a Python number is taken as a float32 scalar and
  multiplies every pixel, a Python bool counts as 1 or 0, and a string has no
  multiplication with a float array.
\<close>

definition imul_scalar :: "'a::{zero,one,times} ndarray \<Rightarrow> 'a hvalue \<Rightarrow> error + 'a ndarray" where
  "imul_scalar a v =
     (case v of
        Number t \<Rightarrow> Inr (astype (\<lambda>x. x * t) a)
      | Logical b \<Rightarrow> Inr (astype (\<lambda>x. x * (if b then 1 else 0)) a)
      | Text s \<Rightarrow> Inl ScalarTypeError)"

subsection \<open>The calibration arithmetic (lines 48 to 54)\<close>

text \<open>
  \<^verbatim>\<open>
  sci -= bias
  dark *= sciHeader['EXPTIME']
  sci -= dark
  sci /= flat
  \<close>
  The arrays are fresh copies (\<^verbatim>\<open>astype\<close> copies), so no two of them are aliased and
  the in-place updates are the same as rebinding the names.
\<close>

definition calibrate ::
  "'a::{zero,one,minus,times,inverse} ndarray \<Rightarrow> 'a ndarray \<Rightarrow> 'a ndarray \<Rightarrow> 'a ndarray
     \<Rightarrow> 'a header \<Rightarrow> error + 'a ndarray" where
  "calibrate sci bias flat dark sciHeader =
     (case isub sci bias of
        Inl e \<Rightarrow> Inl e
      | Inr sci1 \<Rightarrow>
     (case header_get sciHeader ''EXPTIME'' of
        Inl e \<Rightarrow> Inl e
      | Inr exptime \<Rightarrow>
     (case imul_scalar dark exptime of
        Inl e \<Rightarrow> Inl e
      | Inr dark1 \<Rightarrow>
     (case isub sci1 dark1 of
        Inl e \<Rightarrow> Inl e
      | Inr sci2 \<Rightarrow> idiv sci2 flat))))"

subsection \<open>FITS files and the file system\<close>

text \<open>
  The data of an HDU is an image plane with its element type: single-precision floats,
  or 8-bit unsigned integers (the type of the mask this function writes). A FITS file is
  a primary HDU followed by its extensions. The file system maps a path to the file
  there, and says which paths can be written.
\<close>

datatype 'a plane = Float32 "'a ndarray" | UInt8 "8 word ndarray"

record 'a hdu =
  header :: "'a header"
  data :: "'a plane option"

datatype 'a fits_file = NotFits | Fits "'a hdu" "'a hdu list"

record 'a filesystem =
  files :: "string \<rightharpoonup> 'a fits_file"
  writable :: "string \<Rightarrow> bool"

text \<open>
  The collaborators outside the repository whose results depend on float arithmetic or
  on an algorithm that is not specified: numpy's conversion of an 8-bit integer to
  float32, and astroscrappy's \<^verbatim>\<open>detect_cosmics\<close>, which returns a boolean mask and a
  cleaned image, or raises.
\<close>

record 'a externals =
  f4_of_uint8 :: "8 word \<Rightarrow> 'a"
  detect_cosmics :: "'a ndarray \<Rightarrow> (bool ndarray \<times> 'a ndarray) option"

definition fits_open :: "'a filesystem \<Rightarrow> string \<Rightarrow> error + 'a hdu list" where
  "fits_open fs filename =
     (case files fs filename of
        None \<Rightarrow> Inl (NotFoundError filename)
      | Some NotFits \<Rightarrow> Inl (FormatError filename)
      | Some (Fits primary extensions) \<Rightarrow> Inr (primary # extensions))"

text \<open>
  \<^verbatim>\<open>fits.getdata(filename)\<close> with no extension given: the data of the primary HDU, and
  when that HDU is empty the data of the first extension.
\<close>

definition getdata :: "'a filesystem \<Rightarrow> string \<Rightarrow> error + 'a plane" where
  "getdata fs filename =
     (case fits_open fs filename of
        Inl e \<Rightarrow> Inl e
      | Inr hdulist \<Rightarrow>
          (case data (hd hdulist) of
             Some d \<Rightarrow> Inr d
           | None \<Rightarrow>
               (case tl hdulist of
                  [] \<Rightarrow> Inl (NoDataError filename)
                | ext # _ \<Rightarrow>
                    (case data ext of
                       Some d \<Rightarrow> Inr d
                     | None \<Rightarrow> Inl (NoDataError filename)))))"

text \<open>\<^verbatim>\<open>fits.getheader(filename)\<close>: the header of the primary HDU.\<close>

definition getheader :: "'a filesystem \<Rightarrow> string \<Rightarrow> error + 'a header" where
  "getheader fs filename =
     (case fits_open fs filename of
        Inl e \<Rightarrow> Inl e
      | Inr hdulist \<Rightarrow> Inr (header (hd hdulist)))"

text \<open>\<^verbatim>\<open>.astype('f4')\<close> on the data of a file, and \<^verbatim>\<open>.astype('uint8')\<close> on a boolean mask.\<close>

definition astype_f4 :: "'a externals \<Rightarrow> 'a plane \<Rightarrow> 'a ndarray" where
  "astype_f4 lib d = (case d of Float32 a \<Rightarrow> a | UInt8 a \<Rightarrow> astype (f4_of_uint8 lib) a)"

definition uint8_of_bool :: "bool \<Rightarrow> 8 word" where
  "uint8_of_bool b = (if b then 1 else 0)"

text \<open>
  \<^verbatim>\<open>hdul.writeto(filename, overwrite=True)\<close>: the file at the path is replaced, whatever
  was there.
\<close>

definition writeto :: "'a filesystem \<Rightarrow> string \<Rightarrow> 'a fits_file \<Rightarrow> error + 'a filesystem" where
  "writeto fs filename f =
     (if writable fs filename
      then Inr (fs\<lparr>files := (files fs)(filename \<mapsto> f)\<rparr>)
      else Inl (WriteError filename))"

subsection \<open>Assignment to a header keyword\<close>

text \<open>
  \<^verbatim>\<open>header[key] = value\<close> and \<^verbatim>\<open>header[key] = (value, comment)\<close>, as astropy's
  \<^verbatim>\<open>Header._update\<close> does them. A string value must be printable ASCII. A keyword that
  is in the header (and is not a commentary keyword) has the value of its first card
  overwritten, and the comment too when one is given. A commentary keyword always gets
  a new card, after the last card of the same keyword, or at the bottom when there is
  none. Any other keyword gets a new card after the last card that is not commentary.
\<close>

definition commentary :: "string \<Rightarrow> bool" where
  "commentary k = (k = ''COMMENT'' \<or> k = ''HISTORY'' \<or> k = [])"

definition printable_ascii :: "string \<Rightarrow> bool" where
  "printable_ascii s = list_all (\<lambda>c. 32 \<le> (of_char c :: nat) \<and> (of_char c :: nat) \<le> 126) s"

fun update_first :: "string \<Rightarrow> 'a hvalue \<Rightarrow> string option \<Rightarrow> 'a header \<Rightarrow> 'a header" where
  "update_first k v cm [] = []"
| "update_first k v cm (c # cs) =
     (if keyword c = k
      then (k, v, (case cm of None \<Rightarrow> snd (snd c) | Some s \<Rightarrow> s)) # cs
      else c # update_first k v cm cs)"

definition insert_after_last :: "('a card \<Rightarrow> bool) \<Rightarrow> 'a card \<Rightarrow> 'a header \<Rightarrow> 'a header" where
  "insert_after_last P c h =
     rev (dropWhile (\<lambda>x. \<not> P x) (rev h)) @ c # rev (takeWhile (\<lambda>x. \<not> P x) (rev h))"

definition header_set ::
  "'a header \<Rightarrow> string \<Rightarrow> 'a hvalue \<Rightarrow> string option \<Rightarrow> error + 'a header" where
  "header_set h k v cm =
     (case (case v of Text s \<Rightarrow> if printable_ascii s then None else Some s | _ \<Rightarrow> None) of
        Some s \<Rightarrow> Inl (HeaderValueError s)
      | None \<Rightarrow>
          (let new = (k, v, (case cm of None \<Rightarrow> [] | Some s \<Rightarrow> s)) in
           if \<not> commentary k \<and> list_ex (\<lambda>c. keyword c = k) h
           then Inr (update_first k v cm h)
           else if commentary k
           then (if list_ex (\<lambda>c. keyword c = k) h
                 then Inr (insert_after_last (\<lambda>c. keyword c = k) new h)
                 else Inr (h @ [new]))
           else Inr (insert_after_last (\<lambda>c. \<not> commentary (keyword c)) new h)))"

subsection \<open>The function\<close>

text \<open>Lines 42 to 46: the four arrays as float32 copies, and the science header.\<close>

record 'a frames =
  bias :: "'a ndarray"
  flat :: "'a ndarray"
  dark :: "'a ndarray"
  sci :: "'a ndarray"
  sciHeader :: "'a header"

definition load_frames ::
  "'a externals \<Rightarrow> 'a filesystem \<Rightarrow> string \<Rightarrow> string \<Rightarrow> string \<Rightarrow> string \<Rightarrow> error + 'a frames" where
  "load_frames lib fs science_filename median_bias_filename median_flat_filename
       median_dark_filename =
     (case getdata fs median_bias_filename of
        Inl e \<Rightarrow> Inl e
      | Inr b \<Rightarrow>
     (case getdata fs median_flat_filename of
        Inl e \<Rightarrow> Inl e
      | Inr f \<Rightarrow>
     (case getdata fs median_dark_filename of
        Inl e \<Rightarrow> Inl e
      | Inr d \<Rightarrow>
     (case getdata fs science_filename of
        Inl e \<Rightarrow> Inl e
      | Inr s \<Rightarrow>
     (case getheader fs science_filename of
        Inl e \<Rightarrow> Inl e
      | Inr h \<Rightarrow>
          Inr \<lparr>bias = astype_f4 lib b, flat = astype_f4 lib f, dark = astype_f4 lib d,
               sci = astype_f4 lib s, sciHeader = h\<rparr>)))))"

text \<open>
  The value of \<^verbatim>\<open>sci\<close> after line 54: the corrected image, before the cosmic-ray step.
\<close>

definition corrected_image ::
  "'a::{zero,one,minus,times,inverse} externals \<Rightarrow> 'a filesystem
     \<Rightarrow> string \<Rightarrow> string \<Rightarrow> string \<Rightarrow> string \<Rightarrow> error + 'a ndarray" where
  "corrected_image lib fs science_filename median_bias_filename median_flat_filename
       median_dark_filename =
     (case load_frames lib fs science_filename median_bias_filename median_flat_filename
             median_dark_filename of
        Inl e \<Rightarrow> Inl e
      | Inr fr \<Rightarrow> calibrate (sci fr) (bias fr) (flat fr) (dark fr) (sciHeader fr))"

text \<open>Lines 60 to 63: the four assignments to the header of the primary HDU.\<close>

definition provenance_header ::
  "'a header \<Rightarrow> string \<Rightarrow> string \<Rightarrow> string \<Rightarrow> error + 'a header" where
  "provenance_header h median_bias_filename median_dark_filename median_flat_filename =
     (case header_set h ''COMMENT'' (Text ''Reduced science image'') None of
        Inl e \<Rightarrow> Inl e
      | Inr h1 \<Rightarrow>
     (case header_set h1 ''BIASFILE'' (Text median_bias_filename)
             (Some ''Bias image used to subtract bias level'') of
        Inl e \<Rightarrow> Inl e
      | Inr h2 \<Rightarrow>
     (case header_set h2 ''DARKFILE'' (Text median_dark_filename)
             (Some ''Dark image used to subtract dark current'') of
        Inl e \<Rightarrow> Inl e
      | Inr h3 \<Rightarrow>
          header_set h3 ''FLATFILE'' (Text median_flat_filename)
            (Some ''Flat image used for FPN correction''))))"


text \<open>
  \<^verbatim>\<open>fits.ImageHDU(data=..., name=...)\<close>: the name of an extension is its EXTNAME card.
\<close>

definition ImageHDU :: "'a plane \<Rightarrow> string \<Rightarrow> 'a hdu" where
  "ImageHDU d name = \<lparr>header = [(''EXTNAME'', Text name, ''extension name'')], data = Some d\<rparr>"

definition PrimaryHDU :: "'a plane \<Rightarrow> 'a header \<Rightarrow> 'a hdu" where
  "PrimaryHDU d h = \<lparr>header = h, data = Some d\<rparr>"

text \<open>
  The whole function. It returns the image or the exception, and the file system as the
  call leaves it. The steps are those of the source, in its order; an exception at a
  step ends the call there. The output path is always given here; the source defaults
  it to \<^verbatim>\<open>reduced_science.fits\<close>.
\<close>

definition reduce_science_frame ::
  "'a::{zero,one,minus,times,inverse} externals \<Rightarrow> 'a filesystem
     \<Rightarrow> string \<Rightarrow> string \<Rightarrow> string \<Rightarrow> string \<Rightarrow> string
     \<Rightarrow> (error + 'a ndarray) \<times> 'a filesystem" where
  "reduce_science_frame lib fs science_filename median_bias_filename median_flat_filename
       median_dark_filename reduced_science_filename =
     (case load_frames lib fs science_filename median_bias_filename median_flat_filename
             median_dark_filename of
        Inl e \<Rightarrow> (Inl e, fs)
      | Inr fr \<Rightarrow>
     (case calibrate (sci fr) (bias fr) (flat fr) (dark fr) (sciHeader fr) of
        Inl e \<Rightarrow> (Inl e, fs)
      | Inr corrected \<Rightarrow>
     (case detect_cosmics lib corrected of
        None \<Rightarrow> (Inl DetectionError, fs)
      | Some (cr_mask, reduced_science) \<Rightarrow>
     (let sci_hdu = PrimaryHDU (Float32 reduced_science) (sciHeader fr) in
      case provenance_header (header sci_hdu) median_bias_filename median_dark_filename
             median_flat_filename of
        Inl e \<Rightarrow> (Inl e, fs)
      | Inr h \<Rightarrow>
     (let mask_hdu = ImageHDU (UInt8 (astype uint8_of_bool cr_mask)) ''COSMICRAY_MASK'' in
      case writeto fs reduced_science_filename (Fits (sci_hdu\<lparr>header := h\<rparr>) [mask_hdu]) of
        Inl e \<Rightarrow> (Inl e, fs)
      | Inr fs' \<Rightarrow> (Inr reduced_science, fs'))))))"

text \<open>
  The part of the detector's interface that the shape of the output file rests on: the
  mask and the cleaned image it returns have one shape.
\<close>

definition detector_shapes_agree :: "'a externals \<Rightarrow> bool" where
  "detector_shapes_agree lib =
     (\<forall>a cr_mask cleaned. detect_cosmics lib a = Some (cr_mask, cleaned)
        \<longrightarrow> shape cr_mask = shape cleaned)"

subsection \<open>A concrete file system\<close>

text \<open>
  Small frames over the rationals, on which the theorems below are applied. The
  detector of the example flags every pixel above 100 and replaces it by 0.
\<close>

definition example_lib :: "rat externals" where
  "example_lib =
     \<lparr>f4_of_uint8 = (\<lambda>w. of_nat (unat w)),
      detect_cosmics = (\<lambda>a. Some (astype (\<lambda>x. 100 < x) a, astype (\<lambda>x. if 100 < x then 0 else x) a))\<rparr>"

definition image_file :: "'a header \<Rightarrow> 'a ndarray \<Rightarrow> 'a fits_file" where
  "image_file h a = Fits \<lparr>header = h, data = Some (Float32 a)\<rparr> []"

definition example_files :: "string \<rightharpoonup> rat fits_file" where
  "example_files =
     [''sci.fits'' \<mapsto> image_file [(''EXPTIME'', Number 2, ''exposure time'')]
                        (NDArray 2 [[11, 25], [9, 405]]),
      ''sci_noexp.fits'' \<mapsto> image_file [(''OBJECT'', Text ''M31'', [])]
                        (NDArray 2 [[11, 25], [9, 405]]),
      ''sci_again.fits'' \<mapsto> image_file [(''EXPTIME'', Number 2, ''exposure time''),
                                         (''BIASFILE'', Text ''old_bias.fits'', ''earlier run'')]
                        (NDArray 2 [[11, 25], [9, 405]]),
      ''sci_zero.fits'' \<mapsto> image_file [(''EXPTIME'', Number 0, ''exposure time'')]
                        (NDArray 2 [[11, 25], [9, 405]]),
      ''sci_neg.fits'' \<mapsto> image_file [(''EXPTIME'', Number (- 1), ''exposure time'')]
                        (NDArray 2 [[11, 25], [9, 405]]),
      ''bias.fits'' \<mapsto> image_file [] (NDArray 2 [[1, 1], [1, 1]]),
      ''bias_row.fits'' \<mapsto> image_file [] (NDArray 2 [[1, 1]]),
      ''bias_wide.fits'' \<mapsto> image_file [] (NDArray 3 [[1, 1, 1], [1, 1, 1]]),
      ''flat.fits'' \<mapsto> image_file [] (NDArray 2 [[1, 2], [2, 1]]),
      ''dark.fits'' \<mapsto> image_file [] (NDArray 2 [[1, 2], [0, 2]])]"

definition example_fs :: "rat filesystem" where
  "example_fs = \<lparr>files = example_files, writable = (\<lambda>path. path \<noteq> [])\<rparr>"

definition example_frames :: "rat frames" where
  "example_frames =
     \<lparr>bias = NDArray 2 [[1, 1], [1, 1]], flat = NDArray 2 [[1, 2], [2, 1]],
      dark = NDArray 2 [[1, 2], [0, 2]], sci = NDArray 2 [[11, 25], [9, 405]],
      sciHeader = [(''EXPTIME'', Number 2, ''exposure time'')]\<rparr>"

subsection \<open>Lemmas on arrays\<close>


lemma broadcastable_same_shape: "shape b = shape a \<Longrightarrow> broadcastable b (shape a)"
  by (simp add: broadcastable_def shape_def)



lemma inplace_Inr_shape: "inplace f a b = Inr c \<Longrightarrow> broadcastable b (shape a)"
  by (auto simp: inplace_def broadcast_to_def split: if_splits)

lemma inplace_Inl: "inplace f a b = Inl e \<Longrightarrow> e = ShapeMismatchError \<and> \<not> broadcastable b (shape a)"
  by (auto simp: inplace_def broadcast_to_def split: if_splits)

lemma inplace_not_broadcastable:
  "\<not> broadcastable b (shape a) \<Longrightarrow> inplace f a b = Inl ShapeMismatchError"
  by (simp add: inplace_def broadcast_to_def)



lemma astype_shape: "shape (astype conv a) = shape a"
  by (simp add: astype_def shape_def nrows_def)



lemma broadcast_to_shape:
  "broadcast_to b shp = Some b' \<Longrightarrow> nrows b' = fst shp \<and> ncols b' = snd shp"
  by (auto simp: broadcast_to_def nrows_def split: if_splits)

lemma inplace_shape: "inplace f a b = Inr c \<Longrightarrow> shape c = shape a"
  by (auto simp: inplace_def shape_def nrows_def split: option.splits dest!: broadcast_to_shape)

lemma inplace_isl: "isl (inplace f a b) \<longleftrightarrow> \<not> broadcastable b (shape a)"
  by (simp add: inplace_def broadcast_to_def)

lemma broadcastable_astype: "broadcastable (astype conv a) shp = broadcastable a shp"
  by (simp add: broadcastable_def astype_def nrows_def)

subsection \<open>Lemmas on the calibration\<close>

lemma calibrate_number:
  fixes S :: "'a::{zero,one,minus,times,inverse} ndarray"
  assumes "header_get h ''EXPTIME'' = Inr (Number t)"
  shows "calibrate S B F D h =
     (case isub S B of
        Inl e \<Rightarrow> Inl e
      | Inr s1 \<Rightarrow> (case isub s1 (astype (\<lambda>x. x * t) D) of
                     Inl e \<Rightarrow> Inl e
                   | Inr s2 \<Rightarrow> idiv s2 F))"
  using assms by (simp add: calibrate_def imul_scalar_def split: sum.splits)

lemma calibrate_error_iff:
  fixes S :: "'a::{zero,one,minus,times,inverse} ndarray"
  assumes "header_get h ''EXPTIME'' = Inr (Number t)"
  shows "isl (calibrate S B F D h) \<longleftrightarrow>
           \<not> (broadcastable B (shape S) \<and> broadcastable D (shape S) \<and> broadcastable F (shape S))"
proof (cases "inplace (\<lambda>x y. x - y) S B")
  case (Inl e)
  then show ?thesis
    unfolding calibrate_number [OF assms] isub_def idiv_def
    by (auto dest: inplace_Inl)
next
  case s1: (Inr s1)
  have sh1: "shape s1 = shape S" and bB: "broadcastable B (shape S)"
    using s1 by (auto dest: inplace_shape inplace_Inr_shape)
  show ?thesis
  proof (cases "inplace (\<lambda>x y. x - y) s1 (astype (\<lambda>x. x * t) D)")
    case (Inl e)
    then have "\<not> broadcastable D (shape S)"
      using sh1 by (auto dest: inplace_Inl simp: broadcastable_astype)
    with s1 Inl show ?thesis
      unfolding calibrate_number [OF assms] isub_def idiv_def by simp
  next
    case s2: (Inr s2)
    have sh2: "shape s2 = shape S" and bD: "broadcastable D (shape S)"
      using s2 sh1 by (auto dest: inplace_shape inplace_Inr_shape simp: broadcastable_astype)
    show ?thesis
      unfolding calibrate_number [OF assms] isub_def idiv_def
      using s1 s2 bB bD sh2 by (simp add: inplace_isl)
  qed
qed

lemma calibrate_error_shape:
  fixes S :: "'a::{zero,one,minus,times,inverse} ndarray"
  assumes "header_get h ''EXPTIME'' = Inr (Number t)" "calibrate S B F D h = Inl e"
  shows "e = ShapeMismatchError"
  using assms(2) unfolding calibrate_number [OF assms(1)] isub_def idiv_def
  by (auto split: sum.splits dest: inplace_Inl)


subsection \<open>Lemmas on headers\<close>





lemma update_first_length: "length (update_first k v cm h) = length h"
  by (induction h) auto












lemma commentary_keys [simp]:
  "commentary ''COMMENT''" "\<not> commentary ''BIASFILE''" "\<not> commentary ''DARKFILE''"
  "\<not> commentary ''FLATFILE''"
  by (simp_all add: commentary_def)






subsection \<open>Lemmas on the function\<close>

lemma PrimaryHDU_header [simp]:
  "header (PrimaryHDU d h) = h" "data (PrimaryHDU d h) = Some d"
  "(PrimaryHDU d h)\<lparr>header := h'\<rparr> = PrimaryHDU d h'"
  by (simp_all add: PrimaryHDU_def)

lemma reduce_calibrate_error:
  fixes lib :: "'a::{zero,one,minus,times,inverse} externals"
  assumes "load_frames lib fs sf bf ff df = Inr fr"
    and "calibrate (sci fr) (bias fr) (flat fr) (dark fr) (sciHeader fr) = Inl e"
  shows "reduce_science_frame lib fs sf bf ff df out = (Inl e, fs)"
  using assms by (simp add: reduce_science_frame_def)

lemma reduce_after_calibrate:
  fixes lib :: "'a::{zero,one,minus,times,inverse} externals"
  assumes "load_frames lib fs sf bf ff df = Inr fr"
    and "calibrate (sci fr) (bias fr) (flat fr) (dark fr) (sciHeader fr) = Inr c"
  shows "reduce_science_frame lib fs sf bf ff df out =
     (case detect_cosmics lib c of
        None \<Rightarrow> (Inl DetectionError, fs)
      | Some (cr_mask, reduced_science) \<Rightarrow>
     (case provenance_header (sciHeader fr) bf df ff of
        Inl e \<Rightarrow> (Inl e, fs)
      | Inr h \<Rightarrow>
     (if writable fs out
      then (Inr reduced_science,
            fs\<lparr>files := (files fs)(out \<mapsto>
                 Fits (PrimaryHDU (Float32 reduced_science) h)
                      [ImageHDU (UInt8 (astype uint8_of_bool cr_mask)) ''COSMICRAY_MASK''])\<rparr>)
      else (Inl (WriteError out), fs))))"
  using assms by (simp add: reduce_science_frame_def writeto_def split: option.splits sum.splits)

lemma reduce_success:
  fixes lib :: "'a::{zero,one,minus,times,inverse} externals"
  assumes "reduce_science_frame lib fs sf bf ff df out = (Inr img, fs')"
  obtains fr c cr_mask h where
    "load_frames lib fs sf bf ff df = Inr fr"
    "calibrate (sci fr) (bias fr) (flat fr) (dark fr) (sciHeader fr) = Inr c"
    "detect_cosmics lib c = Some (cr_mask, img)"
    "provenance_header (sciHeader fr) bf df ff = Inr h"
    "writable fs out"
    "fs' = fs\<lparr>files := (files fs)(out \<mapsto>
             Fits (PrimaryHDU (Float32 img) h)
                  [ImageHDU (UInt8 (astype uint8_of_bool cr_mask)) ''COSMICRAY_MASK''])\<rparr>"
  using assms
  by (auto simp: reduce_science_frame_def writeto_def split: sum.splits option.splits if_splits)


lemma header_set_error: "header_set h k v cm = Inl e \<Longrightarrow> \<exists>s. e = HeaderValueError s"
  by (auto simp: header_set_def Let_def split: option.splits if_splits hvalue.splits)

lemma provenance_header_error:
  "provenance_header h bf df ff = Inl e \<Longrightarrow> \<exists>s. e = HeaderValueError s"
  by (auto simp: provenance_header_def split: sum.splits dest: header_set_error)

lemma header_get_missing:
  "\<not> list_ex (\<lambda>c. keyword c = k) h \<Longrightarrow> header_get h k = Inl (MissingMetadataError k)"
  by (induction h) (auto simp: header_get_def)

subsection \<open>The function on the concrete file system\<close>

lemmas example_defs =
  example_fs_def example_files_def example_lib_def example_frames_def image_file_def

lemmas loader_defs =
  load_frames_def getdata_def getheader_def fits_open_def astype_f4_def

lemmas array_defs =
  calibrate_def isub_def idiv_def imul_scalar_def inplace_def broadcast_to_def
  broadcastable_def shape_def nrows_def astype_def header_get_def keyword_def

lemmas header_defs =
  provenance_header_def header_set_def printable_ascii_def commentary_def
  insert_after_last_def keyword_def

lemma example_load:
  "load_frames example_lib example_fs ''sci.fits'' ''bias.fits'' ''flat.fits'' ''dark.fits''
     = Inr example_frames"
  by (simp add: loader_defs example_defs)

lemma example_calibrate:
  "calibrate (sci example_frames) (bias example_frames) (flat example_frames)
     (dark example_frames) (sciHeader example_frames) = Inr (NDArray 2 [[8, 10], [4, 400]])"
  by (simp add: example_frames_def array_defs)

lemma example_provenance:
  "provenance_header [(''EXPTIME'', Number (2::rat), ''exposure time'')]
     ''bias.fits'' ''dark.fits'' ''flat.fits''
    = Inr [(''EXPTIME'', Number 2, ''exposure time''),
           (''BIASFILE'', Text ''bias.fits'', ''Bias image used to subtract bias level''),
           (''DARKFILE'', Text ''dark.fits'', ''Dark image used to subtract dark current''),
           (''FLATFILE'', Text ''flat.fits'', ''Flat image used for FPN correction''),
           (''COMMENT'', Text ''Reduced science image'', [])]"
  by (simp add: header_defs)

lemma example_reduce:
  "reduce_science_frame example_lib example_fs ''sci.fits'' ''bias.fits'' ''flat.fits''
     ''dark.fits'' ''out.fits''
   = (Inr (NDArray 2 [[8, 10], [4, 0]]),
      example_fs\<lparr>files := (files example_fs)(''out.fits'' \<mapsto>
        Fits (PrimaryHDU (Float32 (NDArray 2 [[8, 10], [4, 0]]))
               [(''EXPTIME'', Number 2, ''exposure time''),
                (''BIASFILE'', Text ''bias.fits'', ''Bias image used to subtract bias level''),
                (''DARKFILE'', Text ''dark.fits'', ''Dark image used to subtract dark current''),
                (''FLATFILE'', Text ''flat.fits'', ''Flat image used for FPN correction''),
                (''COMMENT'', Text ''Reduced science image'', [])])
             [ImageHDU (UInt8 (NDArray 2 [[0, 0], [0, 1]])) ''COSMICRAY_MASK''])\<rparr>)"
  unfolding reduce_science_frame_def example_load
  apply (simp add: example_calibrate)
  apply (simp add: example_lib_def astype_def)
  apply (simp add: example_frames_def example_provenance)
  apply (simp add: writeto_def example_fs_def uint8_of_bool_def astype_def)
  done

section \<open>The claims\<close>

subsection \<open>Calibration arithmetic\<close>



text \<open>
  C2 and C3 are not stated. That the dark term at exposure time 2t is twice the dark
  term at t, that it vanishes at t = 0, and that zero bias, zero dark and unit flat give
  back the science image bit for bit are identities of the float32 arithmetic itself
  (\<open>D * (2 * t) = 2 * (D * t)\<close>, \<open>D * 0 = 0\<close>, \<open>x - 0 = x\<close>, \<open>x / 1 = x\<close>), which this
  development leaves uninterpreted; in IEEE arithmetic they depend on rounding, on
  signed zeros and on NaN and infinite pixels.
\<close>

subsection \<open>Errors\<close>

text \<open>
  C4 (the claim fails as stated, see the counterexample). A calibration frame whose
  shape differs from the science frame's is not always refused: numpy broadcasts an
  axis of length 1. Here a bias of shape (1, 2) is subtracted from a science frame of
  shape (2, 2) and the call succeeds.
\<close>

theorem shape_mismatch_broadcast_counterexample:
  "getdata example_fs ''sci.fits'' = Inr (Float32 (NDArray 2 [[11, 25], [9, 405]]))
   \<and> getdata example_fs ''bias_row.fits'' = Inr (Float32 (NDArray 2 [[1, 1]]))
   \<and> shape (NDArray 2 [[1, 1 :: rat]]) \<noteq> shape (NDArray 2 [[11, 25], [9, 405 :: rat]])
   \<and> corrected_image example_lib example_fs ''sci.fits'' ''bias_row.fits'' ''flat.fits''
        ''dark.fits'' = Inr (NDArray 2 [[8, 10], [4, 400]])
   \<and> fst (reduce_science_frame example_lib example_fs ''sci.fits'' ''bias_row.fits''
             ''flat.fits'' ''dark.fits'' ''out.fits'') = Inr (NDArray 2 [[8, 10], [4, 0]])"
  by (simp add: reduce_science_frame_def corrected_image_def loader_defs example_defs
        array_defs header_defs writeto_def)

text \<open>
  C4, amended. When the four files load and EXPTIME is a number, the call raises the
  shape error, and leaves the file system as it was, exactly when some calibration
  frame cannot be broadcast to the shape of the science frame, that is, when it has an
  axis whose length is neither the science frame's nor 1.
\<close>

theorem shape_mismatch_raises:
  fixes lib :: "'a::{zero,one,minus,times,inverse} externals"
  assumes load: "load_frames lib fs science_filename median_bias_filename
                   median_flat_filename median_dark_filename = Inr fr"
    and t: "header_get (sciHeader fr) ''EXPTIME'' = Inr (Number t)"
  shows "reduce_science_frame lib fs science_filename median_bias_filename
           median_flat_filename median_dark_filename reduced_science_filename
           = (Inl ShapeMismatchError, fs)
         \<longleftrightarrow> \<not> (broadcastable (bias fr) (shape (sci fr))
                 \<and> broadcastable (dark fr) (shape (sci fr))
                 \<and> broadcastable (flat fr) (shape (sci fr)))"
proof (cases "calibrate (sci fr) (bias fr) (flat fr) (dark fr) (sciHeader fr)")
  case (Inl e)
  then have "e = ShapeMismatchError"
    using calibrate_error_shape [OF t] by blast
  with Inl calibrate_error_iff [OF t, of "sci fr" "bias fr" "flat fr" "dark fr"]
    reduce_calibrate_error [OF load Inl]
  show ?thesis by simp
next
  case (Inr c)
  with calibrate_error_iff [OF t, of "sci fr" "bias fr" "flat fr" "dark fr"]
  have ok: "broadcastable (bias fr) (shape (sci fr)) \<and> broadcastable (dark fr) (shape (sci fr))
     \<and> broadcastable (flat fr) (shape (sci fr))"
    by simp
  have "reduce_science_frame lib fs science_filename median_bias_filename
           median_flat_filename median_dark_filename reduced_science_filename
           \<noteq> (Inl ShapeMismatchError, fs)"
    unfolding reduce_after_calibrate [OF load Inr]
    by (auto split: option.splits sum.splits dest: provenance_header_error)
  with ok show ?thesis by simp
qed

theorem shape_mismatch_raises_witness:
  "load_frames example_lib example_fs ''sci.fits'' ''bias_wide.fits'' ''flat.fits'' ''dark.fits''
     = Inr (example_frames\<lparr>bias := NDArray 3 [[1, 1, 1], [1, 1, 1]]\<rparr>)
   \<and> \<not> broadcastable (NDArray 3 [[1, 1, 1], [1, 1, 1 :: rat]]) (shape (sci example_frames))
   \<and> reduce_science_frame example_lib example_fs ''sci.fits'' ''bias_wide.fits'' ''flat.fits''
        ''dark.fits'' ''out.fits'' = (Inl ShapeMismatchError, example_fs)"
proof -
  have load: "load_frames example_lib example_fs ''sci.fits'' ''bias_wide.fits'' ''flat.fits''
      ''dark.fits'' = Inr (example_frames\<lparr>bias := NDArray 3 [[1, 1, 1], [1, 1, 1]]\<rparr>)"
    by (simp add: loader_defs example_defs)
  have t: "header_get (sciHeader (example_frames\<lparr>bias := NDArray 3 [[1, 1, 1], [1, 1, 1]]\<rparr>))
      ''EXPTIME'' = Inr (Number 2)"
    by (simp add: example_frames_def header_get_def keyword_def)
  have wide: "\<not> broadcastable (NDArray 3 [[1, 1, 1], [1, 1, 1 :: rat]]) (shape (sci example_frames))"
    by (simp add: example_frames_def broadcastable_def shape_def nrows_def)
  from shape_mismatch_raises [OF load t, of "''out.fits''"] wide load
  show ?thesis by simp
qed

text \<open>
  C5 (the claim fails as stated, see the counterexample). The loader does not look
  for EXPTIME: a science file without it loads, and the key is looked up on line 51,
  after the bias subtraction of line 49. Here the header has no EXPTIME, the four files
  load, and the call ends with the shape error of the bias subtraction.
\<close>

theorem missing_exptime_counterexample:
  "getheader example_fs ''sci_noexp.fits'' = Inr [(''OBJECT'', Text ''M31'', [])]
   \<and> header_get [(''OBJECT'', Text ''M31'', [])] ''EXPTIME''
        = (Inl (MissingMetadataError ''EXPTIME'') :: error + rat hvalue)
   \<and> \<not> isl (load_frames example_lib example_fs ''sci_noexp.fits'' ''bias_wide.fits''
               ''flat.fits'' ''dark.fits'')
   \<and> reduce_science_frame example_lib example_fs ''sci_noexp.fits'' ''bias_wide.fits''
         ''flat.fits'' ''dark.fits'' ''out.fits'' = (Inl ShapeMismatchError, example_fs)"
  by (simp add: reduce_science_frame_def loader_defs example_defs array_defs)

text \<open>
  C5, amended. When the four files load and the science header has no EXPTIME, the
  call fails and writes nothing: with the missing-metadata error, raised at the dark
  scaling after the bias has been subtracted, when the bias can be broadcast to the
  science frame, and with the shape error of the bias subtraction otherwise.
\<close>

theorem missing_exptime_raises:
  fixes lib :: "'a::{zero,one,minus,times,inverse} externals"
  assumes load: "load_frames lib fs science_filename median_bias_filename
                   median_flat_filename median_dark_filename = Inr fr"
    and no_exptime: "\<not> list_ex (\<lambda>c. keyword c = ''EXPTIME'') (sciHeader fr)"
  shows "reduce_science_frame lib fs science_filename median_bias_filename
           median_flat_filename median_dark_filename reduced_science_filename
           = (if broadcastable (bias fr) (shape (sci fr))
              then (Inl (MissingMetadataError ''EXPTIME''), fs)
              else (Inl ShapeMismatchError, fs))"
proof -
  have "calibrate (sci fr) (bias fr) (flat fr) (dark fr) (sciHeader fr)
          = (if broadcastable (bias fr) (shape (sci fr))
             then Inl (MissingMetadataError ''EXPTIME'') else Inl ShapeMismatchError)"
    using header_get_missing [OF no_exptime]
    by (simp add: calibrate_def isub_def inplace_def broadcast_to_def)
  then show ?thesis
    using load by (simp add: reduce_science_frame_def)
qed

theorem missing_exptime_raises_witness:
  "load_frames example_lib example_fs ''sci_noexp.fits'' ''bias.fits'' ''flat.fits'' ''dark.fits''
     = Inr (example_frames\<lparr>sciHeader := [(''OBJECT'', Text ''M31'', [])]\<rparr>)
   \<and> \<not> list_ex (\<lambda>c. keyword c = ''EXPTIME'') [(''OBJECT'', Text ''M31'', []) :: rat card]
   \<and> reduce_science_frame example_lib example_fs ''sci_noexp.fits'' ''bias.fits'' ''flat.fits''
        ''dark.fits'' ''out.fits'' = (Inl (MissingMetadataError ''EXPTIME''), example_fs)"
proof -
  have load: "load_frames example_lib example_fs ''sci_noexp.fits'' ''bias.fits'' ''flat.fits''
      ''dark.fits'' = Inr (example_frames\<lparr>sciHeader := [(''OBJECT'', Text ''M31'', [])]\<rparr>)"
    by (simp add: loader_defs example_defs)
  have no: "\<not> list_ex (\<lambda>c. keyword c = ''EXPTIME'')
               (sciHeader (example_frames\<lparr>sciHeader := [(''OBJECT'', Text ''M31'', [])]\<rparr>))"
    by (simp add: keyword_def)
  have b: "broadcastable (bias example_frames) (shape (sci example_frames))"
    by (simp add: example_frames_def broadcastable_def shape_def nrows_def)
  from missing_exptime_raises [OF load no, of "''out.fits''"] b load no
  show ?thesis by simp
qed

subsection \<open>The output file\<close>




text \<open>
  C7. After a successful call, reading the output file back gives exactly two planes in
  this order: the primary plane, whose data is the image returned to the caller, and an
  extension named COSMICRAY_MASK whose data is an array of 8-bit unsigned integers of
  the shape of the primary plane. The detector is taken to return a mask and a cleaned
  image of one shape.
\<close>

theorem output_file_round_trip:
  fixes lib :: "'a::{zero,one,minus,times,inverse} externals"
  assumes ok: "reduce_science_frame lib fs science_filename median_bias_filename
                 median_flat_filename median_dark_filename reduced_science_filename
                 = (Inr img, fs')"
    and detector: "detector_shapes_agree lib"
  shows "\<exists>primary ext m.
           fits_open fs' reduced_science_filename = Inr [primary, ext]
         \<and> data primary = Some (Float32 img)
         \<and> getdata fs' reduced_science_filename = Inr (Float32 img)
         \<and> header_get (header ext) ''EXTNAME'' = Inr (Text ''COSMICRAY_MASK'')
         \<and> data ext = Some (UInt8 m)
         \<and> shape m = shape img"
proof -
  from ok obtain fr c cr_mask h' where
    det: "detect_cosmics lib c = Some (cr_mask, img)" and
    fs': "fs' = fs\<lparr>files := (files fs)(reduced_science_filename \<mapsto>
             Fits (PrimaryHDU (Float32 img) h')
                  [ImageHDU (UInt8 (astype uint8_of_bool cr_mask)) ''COSMICRAY_MASK''])\<rparr>"
    by (rule reduce_success)
  have "shape cr_mask = shape img"
    using detector det unfolding detector_shapes_agree_def by blast
  then have "shape (astype uint8_of_bool cr_mask) = shape img"
    by (simp add: astype_shape)
  then show ?thesis
    by (simp add: fs' fits_open_def getdata_def PrimaryHDU_def ImageHDU_def header_get_def
          keyword_def)
qed

theorem output_file_round_trip_witness:
  "detector_shapes_agree example_lib
   \<and> fst (reduce_science_frame example_lib example_fs ''sci.fits'' ''bias.fits'' ''flat.fits''
           ''dark.fits'' ''out.fits'') = Inr (NDArray 2 [[8, 10], [4, 0]])
   \<and> (\<exists>primary ext m.
         fits_open (snd (reduce_science_frame example_lib example_fs ''sci.fits'' ''bias.fits''
                           ''flat.fits'' ''dark.fits'' ''out.fits'')) ''out.fits''
           = Inr [primary, ext]
       \<and> data primary = Some (Float32 (NDArray 2 [[8, 10], [4, 0]]))
       \<and> getdata (snd (reduce_science_frame example_lib example_fs ''sci.fits'' ''bias.fits''
                          ''flat.fits'' ''dark.fits'' ''out.fits'')) ''out.fits''
           = Inr (Float32 (NDArray 2 [[8, 10], [4, 0]]))
       \<and> header_get (header ext) ''EXTNAME'' = Inr (Text ''COSMICRAY_MASK'')
       \<and> data ext = Some (UInt8 m)
       \<and> shape m = shape (NDArray 2 [[8, 10], [4, 0 :: rat]]))"
proof -
  have detector: "detector_shapes_agree example_lib"
    by (auto simp: detector_shapes_agree_def example_lib_def astype_shape)
  from output_file_round_trip [OF example_reduce detector] detector
  show ?thesis
    by (simp add: example_reduce)
qed

text \<open>
  C8. A call either returns an image and leaves the file system with the two-plane
  file at the output path and nothing else changed, or it raises and leaves the file
  system exactly as it was: the write of line 66 is the only step that touches the
  file system, and it is reached only after every step before it has succeeded.
\<close>

theorem reduce_all_or_nothing:
  fixes lib :: "'a::{zero,one,minus,times,inverse} externals"
  shows "(\<exists>img h m. reduce_science_frame lib fs science_filename median_bias_filename
              median_flat_filename median_dark_filename reduced_science_filename
            = (Inr img,
               fs\<lparr>files := (files fs)(reduced_science_filename \<mapsto>
                    Fits (PrimaryHDU (Float32 img) h)
                         [ImageHDU (UInt8 m) ''COSMICRAY_MASK''])\<rparr>))
       \<or> (\<exists>e. reduce_science_frame lib fs science_filename median_bias_filename
              median_flat_filename median_dark_filename reduced_science_filename
            = (Inl e, fs))"
  by (auto simp: reduce_science_frame_def writeto_def split: sum.splits option.splits)

theorem reduce_all_or_nothing_witness:
  "snd (reduce_science_frame example_lib example_fs ''sci.fits'' ''bias.fits'' ''flat.fits''
          ''dark.fits'' []) = example_fs
   \<and> (\<exists>e. fst (reduce_science_frame example_lib example_fs ''sci.fits'' ''bias.fits''
                  ''flat.fits'' ''dark.fits'' []) = Inl e)
   \<and> files (snd (reduce_science_frame example_lib example_fs ''sci.fits'' ''bias.fits''
                   ''flat.fits'' ''dark.fits'' ''out.fits'')) ''out.fits'' \<noteq> None"
proof -
  have unwritable: "\<not> writable example_fs []"
    by (simp add: example_fs_def)
  have "\<forall>img. fst (reduce_science_frame example_lib example_fs ''sci.fits'' ''bias.fits''
                     ''flat.fits'' ''dark.fits'' []) \<noteq> Inr img"
    using unwritable
    by (auto simp: reduce_science_frame_def writeto_def split: sum.splits option.splits)
  with reduce_all_or_nothing [of example_lib example_fs "''sci.fits''" "''bias.fits''"
      "''flat.fits''" "''dark.fits''" "[]"]
  show ?thesis
    by (auto simp: example_reduce)
qed

text \<open>
  C9. Whenever the call returns an image, that image is the cleaned image the detector
  returned for the corrected image: no path returns without the detector having run,
  and the corrected image itself is never returned in its place. The image does not
  depend on where the output is written: any other writable path gives the same one.
\<close>

theorem returned_image_is_cleaned:
  fixes lib :: "'a::{zero,one,minus,times,inverse} externals"
  assumes "fst (reduce_science_frame lib fs science_filename median_bias_filename
             median_flat_filename median_dark_filename reduced_science_filename) = Inr img"
  shows "(\<exists>corrected cr_mask.
            corrected_image lib fs science_filename median_bias_filename
              median_flat_filename median_dark_filename = Inr corrected
          \<and> detect_cosmics lib corrected = Some (cr_mask, img))
       \<and> (\<forall>other. writable fs other \<longrightarrow>
            fst (reduce_science_frame lib fs science_filename median_bias_filename
                   median_flat_filename median_dark_filename other) = Inr img)"
  using assms
  by (auto simp: reduce_science_frame_def corrected_image_def writeto_def
        split: sum.splits option.splits if_splits)

theorem returned_image_is_cleaned_witness:
  "fst (reduce_science_frame example_lib example_fs ''sci.fits'' ''bias.fits'' ''flat.fits''
          ''dark.fits'' ''out.fits'') = Inr (NDArray 2 [[8, 10], [4, 0]])
   \<and> corrected_image example_lib example_fs ''sci.fits'' ''bias.fits'' ''flat.fits''
        ''dark.fits'' = Inr (NDArray 2 [[8, 10], [4, 400]])
   \<and> detect_cosmics example_lib (NDArray 2 [[8, 10], [4, 400]])
        = Some (NDArray 2 [[False, False], [False, True]], NDArray 2 [[8, 10], [4, 0]])
   \<and> fst (reduce_science_frame example_lib example_fs ''sci.fits'' ''bias.fits'' ''flat.fits''
            ''dark.fits'' ''elsewhere.fits'') = Inr (NDArray 2 [[8, 10], [4, 0]])"
proof -
  have r: "fst (reduce_science_frame example_lib example_fs ''sci.fits'' ''bias.fits''
                  ''flat.fits'' ''dark.fits'' ''out.fits'') = Inr (NDArray 2 [[8, 10], [4, 0]])"
    by (simp add: example_reduce)
  have c: "corrected_image example_lib example_fs ''sci.fits'' ''bias.fits'' ''flat.fits''
             ''dark.fits'' = Inr (NDArray 2 [[8, 10], [4, 400]])"
    by (simp add: corrected_image_def example_load example_calibrate)
  have d: "detect_cosmics example_lib (NDArray 2 [[8, 10], [4, 400]])
             = Some (NDArray 2 [[False, False], [False, True]], NDArray 2 [[8, 10], [4, 0]])"
    by (simp add: example_lib_def astype_def)
  have w: "writable example_fs ''elsewhere.fits''"
    by (simp add: example_fs_def)
  from returned_image_is_cleaned [OF r] r c d w
  show ?thesis by blast
qed



end
